theory Spec2Isabelle
  imports Main
begin

section \<open>Go values shared by the use cases and the controller\<close>

text \<open>
  A Go \<open>error\<close> is an interface value: what the program can see of it is the text its
  \<open>Error()\<close> method returns and which value it is. \<open>errors.New\<close> builds an
  \<open>ErrorString\<close>; every other error a collaborator hands back is a \<open>Foreign\<close> one,
  tagged so that two errors with the same text can still be different values.
  A nil error is \<open>None\<close> of \<open>error option\<close>.
\<close>

datatype error = ErrorString string | Foreign nat string

fun Error :: "error \<Rightarrow> string" where
  "Error (ErrorString s) = s"
| "Error (Foreign tag s) = s"

definition errors_New :: "string \<Rightarrow> error" where
  "errors_New text = ErrorString text"

text \<open>
  \<open>context.Context\<close>: the handlers only ever pass one on. \<open>Background\<close> is
  \<open>context.Background()\<close>; the context of an incoming request is cancellable and is
  identified by a number.
\<close>

datatype Context = Background | RequestCtx nat

text \<open>\<open>time.Time\<close> as nanoseconds since the Unix epoch; \<open>Unix()\<close> gives whole seconds.\<close>

type_synonym Time = int

definition Unix :: "Time \<Rightarrow> int" where
  "Unix t = t div 1000000000"

text \<open>
  The \<open>%d\<close> verb of \<open>fmt.Sprintf\<close>: a decimal numeral, with a sign when negative.
  \<open>digit\<close> is only ever asked for a number below ten.
\<close>

definition digit :: "nat \<Rightarrow> char" where
  "digit d = ''0123456789'' ! d"

function decimal :: "nat \<Rightarrow> string" where
  "decimal n = (if n < 10 then [digit n] else decimal (n div 10) @ [digit (n mod 10)])"
  by pat_completeness auto
termination
  by (relation "measure id") auto

declare decimal.simps [simp del]

definition Sprintf_d :: "int \<Rightarrow> string" where
  "Sprintf_d i = (if i < 0 then CHR ''-'' # decimal (nat (- i)) else decimal (nat i))"

text \<open>\<open>strings.HasPrefix(s, prefix)\<close>.\<close>

definition HasPrefix :: "string \<Rightarrow> string \<Rightarrow> bool" where
  "HasPrefix s pre = (take (length pre) s = pre)"

section \<open>Data model\<close>

text \<open>
  Modelled from the spec: the declaration of \<open>models.Post\<close> is not among the sources.
  The eight fields the controller's composite literal sets are taken from that literal;
  \<open>ID\<close> stands for the identifier that the spec says the persistence collaborator
  assigns, and has Go's zero value in a freshly built Post.
\<close>

record Post =
  ID :: string
  Title :: string
  Content :: string
  ImageURL :: string
  Likes :: int
  Dislikes :: int
  IsFlagged :: bool
  CreatedAt :: Time
  UpdatedAt :: Time

text \<open>
  A user is \<open>map[string]interface{}\<close>: an open mapping from field names to values.
  The nil map is \<open>None\<close> of \<open>User option\<close>.
\<close>

datatype any = VNil | VString string | VInt int | VBool bool

type_synonym User = "string \<rightharpoonup> any"

text \<open>A \<open>multipart.File\<close> is an open handle.\<close>

datatype File = FileHandle nat

text \<open>\<open>uploader.UploadParams\<close> and \<open>uploader.UploadResult\<close>: the fields this program touches.\<close>

record UploadParams =
  Folder :: string
  PublicID :: string
  Overwrite :: "bool option"

record UploadResult =
  SecureURL :: string

section \<open>The world outside the handlers\<close>

text \<open>
  Posts are passed by pointer, so they live in a store; a pointer is an address.
  Every call that leaves the program is written to a trace, in order, with the
  arguments it was given.
\<close>

type_synonym addr = nat

datatype event =
    EvParseMultipartForm nat
  | EvUpload Context File UploadParams
  | EvFileClose File
  | EvRepoGetAll Context
  | EvRepoCreate Context addr Post
  | EvGetUserByID Context string
  | EvLog string

record World =
  heap :: "addr \<Rightarrow> Post"
  next_addr :: addr
  wall :: "nat \<Rightarrow> Time"
  ticks :: nat
  trace :: "event list"

definition emit :: "event \<Rightarrow> World \<Rightarrow> World" where
  "emit e w = w\<lparr>trace := trace w @ [e]\<rparr>"

text \<open>\<open>time.Now()\<close>: the clock is read once more.\<close>

definition time_Now :: "World \<Rightarrow> Time \<times> World" where
  "time_Now w = (wall w (ticks w), w\<lparr>ticks := Suc (ticks w)\<rparr>)"

text \<open>\<open>log.Printf\<close> with the one format the program uses, a fixed text followed by \<open>%v\<close> of an error.\<close>

definition log_Printf_v :: "string \<Rightarrow> error \<Rightarrow> World \<Rightarrow> World" where
  "log_Printf_v text err w = emit (EvLog (text @ Error err)) w"

subsection \<open>Collaborators\<close>

text \<open>
  The repositories and the Cloudinary client are outside the sources: each is a record
  of what its methods answer. A Go result pair \<open>(value, error)\<close> stays a pair, since
  nothing forces exactly one of the two to be nil.
  \<open>PostRepository.Create\<close> receives the pointer and may rewrite the store.
  \<open>PostRepository.GetAll\<close> returns a slice, which may be nil (\<open>None\<close>); the Posts
  its pointers lead to are given by value, since \<open>GetAll\<close> only encodes them.
\<close>

record UserRepository =
  GetUserByID_impl :: "Context \<Rightarrow> string \<Rightarrow> User option \<times> error option"

record PostRepository =
  GetAll_impl :: "Context \<Rightarrow> Post list option \<times> error option"
  Create_impl :: "Context \<Rightarrow> addr \<Rightarrow> (addr \<Rightarrow> Post) \<Rightarrow> error option \<times> (addr \<Rightarrow> Post)"

record Cloudinary =
  Upload_impl :: "Context \<Rightarrow> File \<Rightarrow> UploadParams \<Rightarrow> UploadResult option \<times> error option"

definition UserRepository_GetUserByID ::
  "UserRepository \<Rightarrow> Context \<Rightarrow> string \<Rightarrow> World \<Rightarrow> (User option \<times> error option) \<times> World" where
  "UserRepository_GetUserByID rp ctx userID w =
     (GetUserByID_impl rp ctx userID, emit (EvGetUserByID ctx userID) w)"

definition PostRepository_GetAll ::
  "PostRepository \<Rightarrow> Context \<Rightarrow> World \<Rightarrow> (Post list option \<times> error option) \<times> World" where
  "PostRepository_GetAll rp ctx w = (GetAll_impl rp ctx, emit (EvRepoGetAll ctx) w)"

definition PostRepository_Create ::
  "PostRepository \<Rightarrow> Context \<Rightarrow> addr \<Rightarrow> World \<Rightarrow> error option \<times> World" where
  "PostRepository_Create rp ctx p w =
     (case Create_impl rp ctx p (heap w) of
        (err, h) \<Rightarrow> (err, (emit (EvRepoCreate ctx p (heap w p)) w)\<lparr>heap := h\<rparr>))"

definition Upload ::
  "Cloudinary \<Rightarrow> Context \<Rightarrow> File \<Rightarrow> UploadParams \<Rightarrow> World
     \<Rightarrow> (UploadResult option \<times> error option) \<times> World" where
  "Upload cl ctx file params w = (Upload_impl cl ctx file params, emit (EvUpload ctx file params) w)"

section \<open>usecases/user_usecase.go\<close>

record UserUsecase =
  UserUsecase_repo :: UserRepository

text \<open>The message \<^verbatim>\<open>falta el parametro 'id'\<close>, whose second \<open>a\<close> carries an acute accent, in UTF-8.\<close>

definition msg_falta_id :: string where
  "msg_falta_id =
     ''falta el par'' @ [CHR 0xC3, CHR 0xA1] @ ''metro '' @ [CHR 0x27] @ ''id'' @ [CHR 0x27]"

definition GetUser ::
  "UserUsecase \<Rightarrow> Context \<Rightarrow> string \<Rightarrow> World \<Rightarrow> (User option \<times> error option) \<times> World" where
  "GetUser u ctx userID w =
     (if userID = '''' then ((None, Some (errors_New msg_falta_id)), w)
      else case UserRepository_GetUserByID (UserUsecase_repo u) ctx userID w of
             ((user, Some err), w') \<Rightarrow> ((None, Some (errors_New ''usuario no encontrado'')), w')
           | ((user, None), w') \<Rightarrow> ((user, None), w'))"

section \<open>usecases/post_usecase.go\<close>

record PostUsecase =
  PostUsecase_repo :: PostRepository

definition GetAllPosts ::
  "PostUsecase \<Rightarrow> Context \<Rightarrow> World \<Rightarrow> (Post list option \<times> error option) \<times> World" where
  "GetAllPosts u ctx w = PostRepository_GetAll (PostUsecase_repo u) ctx w"

definition CreatePost ::
  "PostUsecase \<Rightarrow> Context \<Rightarrow> addr \<Rightarrow> World \<Rightarrow> (addr option \<times> error option) \<times> World" where
  "CreatePost u ctx p w =
     (case PostRepository_Create (PostUsecase_repo u) ctx p w of
        (Some err, w') \<Rightarrow> ((None, Some err), w')
      | (None, w') \<Rightarrow> ((Some p, None), w'))"

section \<open>controllers/post_controller.go\<close>

text \<open>
  What a handler reads from \<open>*http.Request\<close>: the header, the request's context,
  what \<open>ParseMultipartForm\<close> answers for a given memory limit, and the parsed form:
  \<open>Form\<close> (\<open>url.Values\<close>, a key with no value has the empty list) and what
  \<open>FormFile\<close> answers for a key (the opened first file of that key, or an error:
  \<open>http.ErrMissingFile\<close> when the key has no file, the error of opening it otherwise).
\<close>

record Request =
  Header :: "string \<Rightarrow> string list"
  Ctx :: Context
  ParseMultipartForm_impl :: "nat \<Rightarrow> error option"
  Form :: "string \<Rightarrow> string list"
  FormFile_impl :: "string \<Rightarrow> error + File"

definition ErrMissingFile :: error where
  "ErrMissingFile = errors_New ''http: no such file''"

definition Header_Get :: "Request \<Rightarrow> string \<Rightarrow> string" where
  "Header_Get r key = (case Header r key of [] \<Rightarrow> '''' | v # vs \<Rightarrow> v)"

definition ParseMultipartForm :: "Request \<Rightarrow> nat \<Rightarrow> World \<Rightarrow> error option \<times> World" where
  "ParseMultipartForm r maxMemory w =
     (ParseMultipartForm_impl r maxMemory, emit (EvParseMultipartForm maxMemory) w)"

definition FormValue :: "Request \<Rightarrow> string \<Rightarrow> string" where
  "FormValue r key = (case Form r key of [] \<Rightarrow> '''' | v # vs \<Rightarrow> v)"

definition FormFile :: "Request \<Rightarrow> string \<Rightarrow> error + File" where
  "FormFile r key = FormFile_impl r key"

text \<open>
  What a handler writes: either one call of \<open>http.Error(w, message, code)\<close>, or the
  header \<open>Content-Type: application/json\<close>, a status and one JSON-encoded value
  (\<open>JNull\<close> is what a nil slice or a nil pointer encodes to).
\<close>

datatype json = JNull | JPost Post | JPosts "Post list" | JMap "(string \<times> string) list"

datatype response = http_Error string nat | JSON nat json

fun status :: "response \<Rightarrow> nat" where
  "status (http_Error msg code) = code"
| "status (JSON code v) = code"

abbreviation StatusOK :: nat where "StatusOK \<equiv> 200"
abbreviation StatusCreated :: nat where "StatusCreated \<equiv> 201"
abbreviation StatusBadRequest :: nat where "StatusBadRequest \<equiv> 400"
abbreviation StatusInternalServerError :: nat where "StatusInternalServerError \<equiv> 500"

text \<open>
  A handler either responds or panics (a nil pointer is dereferenced; \<open>net/http\<close>
  recovers and nothing is written).
\<close>

datatype outcome = Responded response | Panicked

record PostController =
  postUsecase :: PostUsecase
  cld :: Cloudinary

text \<open>\<open>GetAll\<close>, lines 35-51. The request \<open>r\<close> is a parameter the body never reads.\<close>

definition GetAll :: "PostController \<Rightarrow> Request \<Rightarrow> World \<Rightarrow> outcome \<times> World" where
  "GetAll c r w =
     (let ctx = Background in
      (case GetAllPosts (postUsecase c) ctx w of
         ((posts, Some err), w1) \<Rightarrow>
           (Responded (JSON StatusInternalServerError
                         (JMap [(''error'', ''Error interno del servidor'')])),
            log_Printf_v ''Error obteniendo posts: '' err w1)
       | ((posts, None), w1) \<Rightarrow>
           (Responded (JSON StatusOK (case posts of None \<Rightarrow> JNull | Some ps \<Rightarrow> JPosts ps)),
            w1)))"

text \<open>
  \<open>Create\<close>, lines 65-128. Three pieces of it are named so that the statements below
  can refer to them: the \<open>uploadParams\<close> literal (lines 90-94), the Post literal
  (lines 105-114), and the tail from \<open>time.Now()\<close> on (lines 104-127), which runs with
  the \<open>imageURL\<close> that the upload step left.
\<close>

definition uploadParams :: "Time \<Rightarrow> UploadParams" where
  "uploadParams t =
     \<lparr>Folder = ''posts_images'', PublicID = ''post_'' @ Sprintf_d (Unix t), Overwrite = Some True\<rparr>"

definition new_Post :: "string \<Rightarrow> string \<Rightarrow> string \<Rightarrow> Time \<Rightarrow> Post" where
  "new_Post title content imageURL now =
     \<lparr>ID = '''', Title = title, Content = content, ImageURL = imageURL,
      Likes = 0, Dislikes = 0, IsFlagged = False, CreatedAt = now, UpdatedAt = now\<rparr>"

definition Create_save ::
  "PostController \<Rightarrow> Request \<Rightarrow> string \<Rightarrow> string \<Rightarrow> string \<Rightarrow> World \<Rightarrow> outcome \<times> World" where
  "Create_save c r title content imageURL w =
     (case time_Now w of
        (now, w1) \<Rightarrow>
          let post = next_addr w1;
              w2 = w1\<lparr>heap := (heap w1)(post := new_Post title content imageURL now),
                      next_addr := Suc (next_addr w1)\<rparr>
          in (case CreatePost (postUsecase c) (Ctx r) post w2 of
                ((created, Some err), w3) \<Rightarrow>
                  (Responded (http_Error ''No se pudo crear el post'' StatusInternalServerError),
                   log_Printf_v ''Error creando post: '' err w3)
              | ((Some created, None), w3) \<Rightarrow>
                  (Responded (JSON StatusCreated (JPost (heap w3 created))), w3)
              | ((None, None), w3) \<Rightarrow>
                  (Responded (JSON StatusCreated JNull), w3)))"

text \<open>\<open>defer file.Close()\<close>: the handle is closed when the handler returns, however it does.\<close>

definition deferred_Close :: "File \<Rightarrow> outcome \<times> World \<Rightarrow> outcome \<times> World" where
  "deferred_Close file ow = (fst ow, emit (EvFileClose file) (snd ow))"

definition Create :: "PostController \<Rightarrow> Request \<Rightarrow> World \<Rightarrow> outcome \<times> World" where
  "Create c r w =
     (let ct = Header_Get r ''Content-Type'' in
      if \<not> HasPrefix ct ''multipart/form-data'' then
        (Responded (http_Error ''Content-Type debe ser multipart/form-data'' StatusBadRequest), w)
      else
        (case ParseMultipartForm r (push_bit 20 10) w of
          (Some err, w1) \<Rightarrow>
            (Responded (http_Error (''Error parsing form: '' @ Error err) StatusBadRequest), w1)
        | (None, w1) \<Rightarrow>
            let title = FormValue r ''title'';
                content = FormValue r ''content''
            in
              if title = '''' \<or> content = '''' then
                (Responded (http_Error ''title y content son obligatorios'' StatusBadRequest), w1)
              else
                (case FormFile r ''image'' of
                   Inl err \<Rightarrow> Create_save c r title content '''' w1
                 | Inr file \<Rightarrow>
                     deferred_Close file
                       (case time_Now w1 of
                          (t, w2) \<Rightarrow>
                            (case Upload (cld c) (Ctx r) file (uploadParams t) w2 of
                               ((res, Some err), w3) \<Rightarrow>
                                 (Responded (http_Error (''Error subiendo imagen: '' @ Error err)
                                               StatusInternalServerError), w3)
                             | ((None, None), w3) \<Rightarrow> (Panicked, w3)
                             | ((Some res', None), w3) \<Rightarrow>
                                 Create_save c r title content (SecureURL res') w3)))))"

section \<open>Reading a trace\<close>

text \<open>The calls made between two worlds, the earlier one first.\<close>

definition since :: "World \<Rightarrow> World \<Rightarrow> event list" where
  "since w w' = drop (length (trace w)) (trace w')"

text \<open>The Posts handed to the repository's \<open>Create\<close>, as they were at the call.\<close>

definition created_posts :: "event list \<Rightarrow> Post list" where
  "created_posts es =
     concat (map (\<lambda>e. case e of EvRepoCreate ctx p post \<Rightarrow> [post] | _ \<Rightarrow> []) es)"

text \<open>The uploads asked of Cloudinary.\<close>

definition uploads :: "event list \<Rightarrow> (File \<times> UploadParams) list" where
  "uploads es =
     concat (map (\<lambda>e. case e of EvUpload ctx file params \<Rightarrow> [(file, params)] | _ \<Rightarrow> []) es)"

text \<open>The limits given to \<open>ParseMultipartForm\<close>.\<close>

definition parse_limits :: "event list \<Rightarrow> nat list" where
  "parse_limits es =
     concat (map (\<lambda>e. case e of EvParseMultipartForm n \<Rightarrow> [n] | _ \<Rightarrow> []) es)"

text \<open>The lines written to the server's log.\<close>

definition logged :: "event list \<Rightarrow> string list" where
  "logged es = concat (map (\<lambda>e. case e of EvLog line \<Rightarrow> [line] | _ \<Rightarrow> []) es)"

text \<open>The contexts given to the upload and to the persistence calls.\<close>

definition call_contexts :: "event list \<Rightarrow> Context list" where
  "call_contexts es =
     concat (map (\<lambda>e. case e of
                         EvUpload ctx file params \<Rightarrow> [ctx]
                       | EvRepoGetAll ctx \<Rightarrow> [ctx]
                       | EvRepoCreate ctx p post \<Rightarrow> [ctx]
                       | _ \<Rightarrow> []) es)"

section \<open>Concrete collaborators and requests\<close>

text \<open>
  A world with an empty store and trace, whose clock starts at 2023-11-14T22:13:20Z;
  a repository that works (\<open>Create\<close> assigns the id \<open>p1\<close>), one that is down;
  an image host that works and one that fails with a given message.
\<close>

definition zero_Post :: Post where
  "zero_Post = \<lparr>ID = '''', Title = '''', Content = '''', ImageURL = '''',
                Likes = 0, Dislikes = 0, IsFlagged = False, CreatedAt = 0, UpdatedAt = 0\<rparr>"

definition world0 :: World where
  "world0 = \<lparr>heap = (\<lambda>a. zero_Post), next_addr = 0,
             wall = (\<lambda>n. 1700000000000000000 + int n), ticks = 0, trace = []\<rparr>"

definition repo_ok :: PostRepository where
  "repo_ok = \<lparr>GetAll_impl = (\<lambda>ctx. (Some [], None)),
              Create_impl = (\<lambda>ctx p h. (None, h(p := (h p)\<lparr>ID := ''p1''\<rparr>)))\<rparr>"

definition repo_down :: "string \<Rightarrow> PostRepository" where
  "repo_down msg = \<lparr>GetAll_impl = (\<lambda>ctx. (None, Some (Foreign 1 msg))),
                    Create_impl = (\<lambda>ctx p h. (Some (Foreign 1 msg), h))\<rparr>"

definition cld_ok :: Cloudinary where
  "cld_ok = \<lparr>Upload_impl =
               (\<lambda>ctx file params. (Some \<lparr>SecureURL = ''https://img.example/'' @ PublicID params\<rparr>, None))\<rparr>"

definition cld_fails :: "string \<Rightarrow> Cloudinary" where
  "cld_fails msg = \<lparr>Upload_impl =
               (\<lambda>ctx file params. (Some \<lparr>SecureURL = ''''\<rparr>, Some (Foreign 2 msg)))\<rparr>"

definition controller :: "PostRepository \<Rightarrow> Cloudinary \<Rightarrow> PostController" where
  "controller rp cl = \<lparr>postUsecase = \<lparr>PostUsecase_repo = rp\<rparr>, cld = cl\<rparr>"

text \<open>
  Requests: a multipart form with the given title and content and no file; the same
  with an image; one whose image part cannot be opened; one whose body does not parse;
  and a plain GET. Each has its own cancellable context.
\<close>

definition multipart_header :: "string \<Rightarrow> string list" where
  "multipart_header key =
     (if key = ''Content-Type'' then [''multipart/form-data; boundary=xyz''] else [])"

definition text_fields :: "string \<Rightarrow> string \<Rightarrow> string \<Rightarrow> string list" where
  "text_fields title content key =
     (if key = ''title'' then [title] else if key = ''content'' then [content] else [])"

definition req_text :: "string \<Rightarrow> string \<Rightarrow> Request" where
  "req_text title content =
     \<lparr>Header = multipart_header, Ctx = RequestCtx 1, ParseMultipartForm_impl = (\<lambda>n. None),
      Form = text_fields title content, FormFile_impl = (\<lambda>key. Inl ErrMissingFile)\<rparr>"

definition req_image :: Request where
  "req_image =
     \<lparr>Header = multipart_header, Ctx = RequestCtx 2, ParseMultipartForm_impl = (\<lambda>n. None),
      Form = text_fields ''Hello'' ''World'',
      FormFile_impl = (\<lambda>key. if key = ''image'' then Inr (FileHandle 3) else Inl ErrMissingFile)\<rparr>"

definition req_bad_image :: Request where
  "req_bad_image =
     \<lparr>Header = multipart_header, Ctx = RequestCtx 3, ParseMultipartForm_impl = (\<lambda>n. None),
      Form = text_fields ''Hello'' ''World'',
      FormFile_impl = (\<lambda>key. Inl (Foreign 4 ''open /tmp/multipart-1: too many open files''))\<rparr>"

definition req_unparsable :: Request where
  "req_unparsable =
     \<lparr>Header = multipart_header, Ctx = RequestCtx 4,
      ParseMultipartForm_impl = (\<lambda>n. Some (Foreign 5 ''unexpected EOF'')),
      Form = (\<lambda>key. []), FormFile_impl = (\<lambda>key. Inl ErrMissingFile)\<rparr>"

definition req_get :: Request where
  "req_get =
     \<lparr>Header = (\<lambda>key. []), Ctx = RequestCtx 5, ParseMultipartForm_impl = (\<lambda>n. None),
      Form = (\<lambda>key. []), FormFile_impl = (\<lambda>key. Inl ErrMissingFile)\<rparr>"

definition user_repo_down :: "nat \<Rightarrow> string \<Rightarrow> UserRepository" where
  "user_repo_down tag msg = \<lparr>GetUserByID_impl = (\<lambda>ctx userID. (None, Some (Foreign tag msg)))\<rparr>"

subsection \<open>A multipart body, as the standard library reads it\<close>

text \<open>
  \<open>mime/multipart\<close> and \<open>net/http\<close> are outside the sources; what follows is their
  documented behaviour, used to build requests from a body of known size.
  A body is a sequence of parts, each a plain form field with its value or a file with
  its size in bytes (the content of a file plays no role here, the handle stands for it).
\<close>

datatype part = FormField string string | FilePart string File nat

fun part_size :: "part \<Rightarrow> nat" where
  "part_size (FormField name v) = length v"
| "part_size (FilePart name f n) = n"

text \<open>The bytes of all parts together: what the request carries at least.\<close>

definition body_size :: "part list \<Rightarrow> nat" where
  "body_size ps = sum_list (map part_size ps)"

definition ErrMessageTooLarge :: error where
  "ErrMessageTooLarge = errors_New ''multipart: message too large''"

text \<open>
  \<open>multipart.Reader.ReadForm(maxMemory)\<close>, as its documentation has it: it stores up
  to \<open>maxMemory\<close> bytes plus 10 MB, reserved for non-file parts, in memory; file parts
  which cannot be stored in memory are stored on disk in temporary files; it returns
  \<open>ErrMessageTooLarge\<close> if all non-file parts cannot be stored in memory. The two
  budgets are what is left for files in memory and for everything in memory; the
  bookkeeping overhead that the implementation charges per part is left out.
\<close>

fun ReadForm :: "part list \<Rightarrow> nat \<Rightarrow> nat \<Rightarrow> error option" where
  "ReadForm [] fileMemory memory = None"
| "ReadForm (FormField name v # ps) fileMemory memory =
     (if memory < length v then Some ErrMessageTooLarge
      else ReadForm ps fileMemory (memory - length v))"
| "ReadForm (FilePart name f n # ps) fileMemory memory =
     (if fileMemory < n then ReadForm ps fileMemory memory
      else ReadForm ps (fileMemory - n) (memory - n))"

fun form_values :: "part list \<Rightarrow> string \<Rightarrow> string list" where
  "form_values [] key = []"
| "form_values (FormField name v # ps) key =
     (if name = key then v # form_values ps key else form_values ps key)"
| "form_values (FilePart name f n # ps) key = form_values ps key"

fun form_files :: "part list \<Rightarrow> string \<Rightarrow> File list" where
  "form_files [] key = []"
| "form_files (FormField name v # ps) key = form_files ps key"
| "form_files (FilePart name f n # ps) key =
     (if name = key then f # form_files ps key else form_files ps key)"

text \<open>
  The request that \<open>net/http\<close> makes of such a body: \<open>ParseMultipartForm(maxMemory)\<close>
  is \<open>ReadForm\<close> with that limit, \<open>FormFile\<close> opens the first file of the key.
\<close>

definition multipart_request :: "Context \<Rightarrow> part list \<Rightarrow> Request" where
  "multipart_request ctx ps =
     \<lparr>Header = multipart_header, Ctx = ctx,
      ParseMultipartForm_impl = (\<lambda>maxMemory. ReadForm ps maxMemory (maxMemory + push_bit 20 10)),
      Form = form_values ps,
      FormFile_impl = (\<lambda>key. case form_files ps key of [] \<Rightarrow> Inl ErrMissingFile | f # fs \<Rightarrow> Inr f)\<rparr>"

text \<open>A post with an image of 11 MiB.\<close>

definition big_body :: "part list" where
  "big_body = [FormField ''title'' ''Hello'', FormField ''content'' ''World'',
               FilePart ''image'' (FileHandle 7) (11 * 2 ^ 20)]"

section \<open>How the handlers run\<close>

text \<open>The tail of \<open>Create\<close>, with the calls it makes written out.\<close>

lemma Create_save_run:
  "Create_save c r title content imageURL w =
     (let post = new_Post title content imageURL (wall w (ticks w));
          h = (heap w)(next_addr w := post);
          w3 = (emit (EvRepoCreate (Ctx r) (next_addr w) post) w)
                 \<lparr>heap := snd (Create_impl (PostUsecase_repo (postUsecase c)) (Ctx r) (next_addr w) h),
                  next_addr := Suc (next_addr w), ticks := Suc (ticks w)\<rparr>
      in case fst (Create_impl (PostUsecase_repo (postUsecase c)) (Ctx r) (next_addr w) h) of
           Some err \<Rightarrow>
             (Responded (http_Error ''No se pudo crear el post'' StatusInternalServerError),
              emit (EvLog (''Error creando post: '' @ Error err)) w3)
         | None \<Rightarrow> (Responded (JSON StatusCreated (JPost (heap w3 (next_addr w)))), w3))"
  by (simp add: Create_save_def CreatePost_def PostRepository_Create_def time_Now_def
      log_Printf_v_def emit_def Let_def split: prod.splits option.splits)

lemma Create_save_trace:
  "trace (snd (Create_save c r title content imageURL w)) =
     trace w @
     EvRepoCreate (Ctx r) (next_addr w) (new_Post title content imageURL (wall w (ticks w))) #
     (case fst (Create_impl (PostUsecase_repo (postUsecase c)) (Ctx r) (next_addr w)
                  ((heap w)(next_addr w := new_Post title content imageURL (wall w (ticks w))))) of
        Some err \<Rightarrow> [EvLog (''Error creando post: '' @ Error err)]
      | None \<Rightarrow> [])"
  by (simp add: Create_save_run emit_def Let_def split: option.splits)

lemma Create_save_outcome:
  "fst (Create_save c r title content imageURL w) =
     (case Create_impl (PostUsecase_repo (postUsecase c)) (Ctx r) (next_addr w)
             ((heap w)(next_addr w := new_Post title content imageURL (wall w (ticks w)))) of
        (Some err, h) \<Rightarrow>
          Responded (http_Error ''No se pudo crear el post'' StatusInternalServerError)
      | (None, h) \<Rightarrow> Responded (JSON StatusCreated (JPost (h (next_addr w)))))"
  by (simp add: Create_save_run emit_def Let_def split: option.splits prod.splits)

lemma Create_cases [case_names bad_content_type parse_error missing_field no_image
    upload_error upload_nil uploaded]:
  obtains
    "\<not> HasPrefix (Header_Get r ''Content-Type'') ''multipart/form-data''"
    "Create c r w =
       (Responded (http_Error ''Content-Type debe ser multipart/form-data'' StatusBadRequest), w)"
  | err where
    "HasPrefix (Header_Get r ''Content-Type'') ''multipart/form-data''"
    "ParseMultipartForm_impl r 10485760 = Some err"
    "Create c r w =
       (Responded (http_Error (''Error parsing form: '' @ Error err) StatusBadRequest),
        emit (EvParseMultipartForm 10485760) w)"
  | "HasPrefix (Header_Get r ''Content-Type'') ''multipart/form-data''"
    "ParseMultipartForm_impl r 10485760 = None"
    "FormValue r ''title'' = '''' \<or> FormValue r ''content'' = ''''"
    "Create c r w =
       (Responded (http_Error ''title y content son obligatorios'' StatusBadRequest),
        emit (EvParseMultipartForm 10485760) w)"
  | err where
    "HasPrefix (Header_Get r ''Content-Type'') ''multipart/form-data''"
    "ParseMultipartForm_impl r 10485760 = None"
    "FormValue r ''title'' \<noteq> ''''" "FormValue r ''content'' \<noteq> ''''"
    "FormFile r ''image'' = Inl err"
    "Create c r w =
       Create_save c r (FormValue r ''title'') (FormValue r ''content'') ''''
         (emit (EvParseMultipartForm 10485760) w)"
  | img res err where
    "HasPrefix (Header_Get r ''Content-Type'') ''multipart/form-data''"
    "ParseMultipartForm_impl r 10485760 = None"
    "FormValue r ''title'' \<noteq> ''''" "FormValue r ''content'' \<noteq> ''''"
    "FormFile r ''image'' = Inr img"
    "Upload_impl (cld c) (Ctx r) img (uploadParams (wall w (ticks w))) = (res, Some err)"
    "Create c r w =
       (Responded (http_Error (''Error subiendo imagen: '' @ Error err) StatusInternalServerError),
        w\<lparr>ticks := Suc (ticks w),
          trace := trace w @ [EvParseMultipartForm 10485760,
                              EvUpload (Ctx r) img (uploadParams (wall w (ticks w))),
                              EvFileClose img]\<rparr>)"
  | img where
    "HasPrefix (Header_Get r ''Content-Type'') ''multipart/form-data''"
    "ParseMultipartForm_impl r 10485760 = None"
    "FormValue r ''title'' \<noteq> ''''" "FormValue r ''content'' \<noteq> ''''"
    "FormFile r ''image'' = Inr img"
    "Upload_impl (cld c) (Ctx r) img (uploadParams (wall w (ticks w))) = (None, None)"
    "Create c r w =
       (Panicked,
        w\<lparr>ticks := Suc (ticks w),
          trace := trace w @ [EvParseMultipartForm 10485760,
                              EvUpload (Ctx r) img (uploadParams (wall w (ticks w))),
                              EvFileClose img]\<rparr>)"
  | img res where
    "HasPrefix (Header_Get r ''Content-Type'') ''multipart/form-data''"
    "ParseMultipartForm_impl r 10485760 = None"
    "FormValue r ''title'' \<noteq> ''''" "FormValue r ''content'' \<noteq> ''''"
    "FormFile r ''image'' = Inr img"
    "Upload_impl (cld c) (Ctx r) img (uploadParams (wall w (ticks w))) = (Some res, None)"
    "Create c r w =
       deferred_Close img
         (Create_save c r (FormValue r ''title'') (FormValue r ''content'') (SecureURL res)
            (w\<lparr>ticks := Suc (ticks w),
               trace := trace w @ [EvParseMultipartForm 10485760,
                                   EvUpload (Ctx r) img (uploadParams (wall w (ticks w)))]\<rparr>))"
proof (cases "HasPrefix (Header_Get r ''Content-Type'') ''multipart/form-data''")
  case False
  then have "Create c r w =
     (Responded (http_Error ''Content-Type debe ser multipart/form-data'' StatusBadRequest), w)"
    by (simp add: Create_def)
  with False show ?thesis by (rule that(1))
next
  case pre: True
  show ?thesis
  proof (cases "ParseMultipartForm_impl r 10485760")
    case (Some err)
    have "Create c r w =
       (Responded (http_Error (''Error parsing form: '' @ Error err) StatusBadRequest),
        emit (EvParseMultipartForm 10485760) w)"
      using pre Some by (simp add: Create_def ParseMultipartForm_def)
    with pre Some show ?thesis by (rule that(2))
  next
    case parsed: None
    show ?thesis
    proof (cases "FormValue r ''title'' = '''' \<or> FormValue r ''content'' = ''''")
      case True
      have "Create c r w =
         (Responded (http_Error ''title y content son obligatorios'' StatusBadRequest),
          emit (EvParseMultipartForm 10485760) w)"
        using pre parsed True by (simp add: Create_def ParseMultipartForm_def)
      with pre parsed True show ?thesis by (rule that(3))
    next
      case False
      then have title: "FormValue r ''title'' \<noteq> ''''" and content: "FormValue r ''content'' \<noteq> ''''"
        by simp_all
      show ?thesis
      proof (cases "FormFile r ''image''")
        case (Inl err)
        have "Create c r w =
           Create_save c r (FormValue r ''title'') (FormValue r ''content'') ''''
             (emit (EvParseMultipartForm 10485760) w)"
          using pre parsed title content Inl by (simp add: Create_def ParseMultipartForm_def)
        with pre parsed title content Inl show ?thesis by (rule that(4))
      next
        case (Inr img)
        obtain res uerr where up:
          "Upload_impl (cld c) (Ctx r) img (uploadParams (wall w (ticks w))) = (res, uerr)"
          by (cases "Upload_impl (cld c) (Ctx r) img (uploadParams (wall w (ticks w)))")
        show ?thesis
        proof (cases uerr)
          case (Some err)
          have "Create c r w =
             (Responded (http_Error (''Error subiendo imagen: '' @ Error err) StatusInternalServerError),
              w\<lparr>ticks := Suc (ticks w),
                trace := trace w @ [EvParseMultipartForm 10485760,
                                    EvUpload (Ctx r) img (uploadParams (wall w (ticks w))),
                                    EvFileClose img]\<rparr>)"
            using pre parsed title content Inr up Some
            by (simp add: Create_def ParseMultipartForm_def Upload_def time_Now_def emit_def
                deferred_Close_def Let_def split: option.split)
          with pre parsed title content Inr up[unfolded Some] show ?thesis by (rule that(5))
        next
          case None
          show ?thesis
          proof (cases res)
            case nil: None
            have "Create c r w =
               (Panicked,
                w\<lparr>ticks := Suc (ticks w),
                  trace := trace w @ [EvParseMultipartForm 10485760,
                                      EvUpload (Ctx r) img (uploadParams (wall w (ticks w))),
                                      EvFileClose img]\<rparr>)"
              using pre parsed title content Inr up None nil
              by (simp add: Create_def ParseMultipartForm_def Upload_def time_Now_def emit_def
                  deferred_Close_def Let_def)
            with pre parsed title content Inr up[unfolded None nil] show ?thesis by (rule that(6))
          next
            case (Some res')
            have "Create c r w =
               deferred_Close img
                 (Create_save c r (FormValue r ''title'') (FormValue r ''content'') (SecureURL res')
                    (w\<lparr>ticks := Suc (ticks w),
                       trace := trace w @ [EvParseMultipartForm 10485760,
                                           EvUpload (Ctx r) img (uploadParams (wall w (ticks w)))]\<rparr>))"
              using pre parsed title content Inr up None Some
              by (simp add: Create_def ParseMultipartForm_def Upload_def time_Now_def emit_def
                  Let_def)
            with pre parsed title content Inr up[unfolded None Some] show ?thesis by (rule that(7))
          qed
        qed
      qed
    qed
  qed
qed

subsection \<open>Observations distribute over a trace\<close>

lemma created_posts_append: "created_posts (xs @ ys) = created_posts xs @ created_posts ys"
  by (simp add: created_posts_def)

lemma uploads_append: "uploads (xs @ ys) = uploads xs @ uploads ys"
  by (simp add: uploads_def)

lemma parse_limits_append: "parse_limits (xs @ ys) = parse_limits xs @ parse_limits ys"
  by (simp add: parse_limits_def)

lemma logged_append: "logged (xs @ ys) = logged xs @ logged ys"
  by (simp add: logged_def)

lemma call_contexts_append: "call_contexts (xs @ ys) = call_contexts xs @ call_contexts ys"
  by (simp add: call_contexts_def)

lemma created_posts_Nil: "created_posts [] = []"
  by (simp add: created_posts_def)

lemma created_posts_Cons:
  "created_posts (e # es) =
     (case e of EvRepoCreate ctx p post \<Rightarrow> [post] | _ \<Rightarrow> []) @ created_posts es"
  by (simp add: created_posts_def)

lemma uploads_Nil: "uploads [] = []"
  by (simp add: uploads_def)

lemma uploads_Cons:
  "uploads (e # es) =
     (case e of EvUpload ctx img params \<Rightarrow> [(img, params)] | _ \<Rightarrow> []) @ uploads es"
  by (simp add: uploads_def)

lemma parse_limits_Nil: "parse_limits [] = []"
  by (simp add: parse_limits_def)

lemma parse_limits_Cons:
  "parse_limits (e # es) =
     (case e of EvParseMultipartForm n \<Rightarrow> [n] | _ \<Rightarrow> []) @ parse_limits es"
  by (simp add: parse_limits_def)

lemma logged_Nil: "logged [] = []"
  by (simp add: logged_def)

lemma logged_Cons:
  "logged (e # es) = (case e of EvLog line \<Rightarrow> [line] | _ \<Rightarrow> []) @ logged es"
  by (simp add: logged_def)

lemma call_contexts_Nil: "call_contexts [] = []"
  by (simp add: call_contexts_def)

lemma call_contexts_Cons:
  "call_contexts (e # es) =
     (case e of
        EvUpload ctx img params \<Rightarrow> [ctx]
      | EvRepoGetAll ctx \<Rightarrow> [ctx]
      | EvRepoCreate ctx p post \<Rightarrow> [ctx]
      | _ \<Rightarrow> []) @ call_contexts es"
  by (simp add: call_contexts_def)

lemmas observe_simps = created_posts_Nil created_posts_Cons created_posts_append
  uploads_Nil uploads_Cons uploads_append
  parse_limits_Nil parse_limits_Cons parse_limits_append
  logged_Nil logged_Cons logged_append
  call_contexts_Nil call_contexts_Cons call_contexts_append

lemma since_emit: "since w (emit e w) = [e]"
  by (simp add: since_def emit_def)

lemma since_self: "since w w = []"
  by (simp add: since_def)

lemma since_extend: "since w (w\<lparr>ticks := t, trace := trace w @ es\<rparr>) = es"
  by (simp add: since_def)

lemma emit_fields:
  "heap (emit e w) = heap w" "next_addr (emit e w) = next_addr w"
  "wall (emit e w) = wall w" "ticks (emit e w) = ticks w"
  by (simp_all add: emit_def)

subsection \<open>What the tail of \<open>Create\<close> adds to the trace\<close>

lemma Create_save_since:
  "since w (snd (Create_save c r title content imageURL w)) =
     EvRepoCreate (Ctx r) (next_addr w) (new_Post title content imageURL (wall w (ticks w))) #
     (case fst (Create_impl (PostUsecase_repo (postUsecase c)) (Ctx r) (next_addr w)
                  ((heap w)(next_addr w := new_Post title content imageURL (wall w (ticks w))))) of
        Some err \<Rightarrow> [EvLog (''Error creando post: '' @ Error err)]
      | None \<Rightarrow> [])"
  by (simp add: since_def Create_save_trace)

lemma Create_save_created:
  "created_posts (since w (snd (Create_save c r title content imageURL w))) =
     [new_Post title content imageURL (wall w (ticks w))]"
  by (cases "fst (Create_impl (PostUsecase_repo (postUsecase c)) (Ctx r) (next_addr w)
                  ((heap w)(next_addr w := new_Post title content imageURL (wall w (ticks w)))))")
     (simp_all add: Create_save_since created_posts_def)

lemma Create_save_uploads:
  "uploads (since w (snd (Create_save c r title content imageURL w))) = []"
  by (cases "fst (Create_impl (PostUsecase_repo (postUsecase c)) (Ctx r) (next_addr w)
                  ((heap w)(next_addr w := new_Post title content imageURL (wall w (ticks w)))))")
     (simp_all add: Create_save_since uploads_def)

lemma Create_save_parse_limits:
  "parse_limits (since w (snd (Create_save c r title content imageURL w))) = []"
  by (cases "fst (Create_impl (PostUsecase_repo (postUsecase c)) (Ctx r) (next_addr w)
                  ((heap w)(next_addr w := new_Post title content imageURL (wall w (ticks w)))))")
     (simp_all add: Create_save_since parse_limits_def)

lemma Create_save_contexts:
  "call_contexts (since w (snd (Create_save c r title content imageURL w))) = [Ctx r]"
  by (cases "fst (Create_impl (PostUsecase_repo (postUsecase c)) (Ctx r) (next_addr w)
                  ((heap w)(next_addr w := new_Post title content imageURL (wall w (ticks w)))))")
     (simp_all add: Create_save_since call_contexts_def)

lemma Create_save_logged:
  "logged (since w (snd (Create_save c r title content imageURL w))) =
     (case fst (Create_impl (PostUsecase_repo (postUsecase c)) (Ctx r) (next_addr w)
                  ((heap w)(next_addr w := new_Post title content imageURL (wall w (ticks w))))) of
        Some err \<Rightarrow> [''Error creando post: '' @ Error err]
      | None \<Rightarrow> [])"
  by (cases "fst (Create_impl (PostUsecase_repo (postUsecase c)) (Ctx r) (next_addr w)
                  ((heap w)(next_addr w := new_Post title content imageURL (wall w (ticks w)))))")
     (simp_all add: Create_save_since logged_def)

lemmas Create_save_observed = Create_save_created Create_save_uploads Create_save_parse_limits
  Create_save_contexts Create_save_logged

text \<open>The two ways in which \<open>Create\<close> reaches its tail.\<close>

lemma since_no_image:
  "since w (snd (Create_save c r title content imageURL (emit e w))) =
     e # since (emit e w) (snd (Create_save c r title content imageURL (emit e w)))"
  by (simp add: emit_def since_def Create_save_trace)

lemma since_uploaded:
  "since w (snd (deferred_Close img
      (Create_save c r title content imageURL
         (w\<lparr>ticks := Suc (ticks w), trace := trace w @ [e1, e2]\<rparr>)))) =
     e1 # e2 #
     since (w\<lparr>ticks := Suc (ticks w), trace := trace w @ [e1, e2]\<rparr>)
       (snd (Create_save c r title content imageURL
          (w\<lparr>ticks := Suc (ticks w), trace := trace w @ [e1, e2]\<rparr>)))
     @ [EvFileClose img]"
  by (simp add: deferred_Close_def emit_def since_def Create_save_trace)

subsection \<open>Evaluating the concrete requests\<close>

lemmas request_defs = multipart_header_def text_fields_def req_text_def req_image_def
  req_bad_image_def req_unparsable_def req_get_def
  HasPrefix_def Header_Get_def FormValue_def FormFile_def

lemmas collaborator_defs = world0_def repo_ok_def repo_down_def cld_ok_def cld_fails_def
  controller_def user_repo_down_def

lemmas run_defs = Create_def Create_save_def CreatePost_def PostRepository_Create_def Upload_def
  ParseMultipartForm_def deferred_Close_def time_Now_def log_Printf_v_def emit_def since_def
  GetAll_def GetAllPosts_def PostRepository_GetAll_def

lemmas Create_observed = since_emit since_self since_extend since_no_image since_uploaded
  emit_fields observe_simps Create_save_observed

lemma post_id: "Sprintf_d (Unix 1700000000000000000) = ''1700000000''"
  by (simp add: Sprintf_d_def Unix_def decimal.simps digit_def)

subsection \<open>Failures of the collaborators, one path at a time\<close>





subsection \<open>The contexts handed to the collaborators\<close>

lemma GetAll_contexts: "call_contexts (since w (snd (GetAll c r w))) = [Background]"
  by (simp add: GetAll_def GetAllPosts_def PostRepository_GetAll_def log_Printf_v_def since_def
      emit_def observe_simps split: prod.split option.split)

lemma Create_contexts: "set (call_contexts (since w (snd (Create c r w)))) \<subseteq> {Ctx r}"
  by (cases rule: Create_cases [of r c w]) (simp_all add: Create_observed)

section \<open>User use case: properties\<close>

text \<open>
  C6. Called with the empty userID, \<open>GetUser\<close> returns a nil user and the
  missing-parameter error (the message \<open>msg_falta_id\<close>), and leaves the world as it
  was: the trace has no new entry, so the repository's lookup was not called.
\<close>

theorem GetUser_empty_id:
  "GetUser u ctx '''' w = ((None, Some (errors_New msg_falta_id)), w)"
  by (simp add: GetUser_def)

text \<open>
  C5. For a non-empty userID, whenever the repository's lookup returns an error,
  whichever it is, \<open>GetUser\<close> returns a nil user and the one error
  \<open>usuario no encontrado\<close>: the repository's error does not occur in the result.
\<close>

theorem GetUser_repo_failure:
  assumes "userID \<noteq> ''''"
    and "snd (GetUserByID_impl (UserUsecase_repo u) ctx userID) = Some err"
  shows "fst (GetUser u ctx userID w) = (None, Some (errors_New ''usuario no encontrado''))"
  using assms
  by (cases "GetUserByID_impl (UserUsecase_repo u) ctx userID")
     (simp add: GetUser_def UserRepository_GetUserByID_def)

text \<open>Two different repository errors, a missing row and a refused connection: one answer.\<close>

theorem GetUser_repo_failure_witness:
  "''42'' \<noteq> ''''
   \<and> snd (GetUserByID_impl
            (UserUsecase_repo \<lparr>UserUsecase_repo = user_repo_down 1 ''sql: no rows in result set''\<rparr>)
            Background ''42'') = Some (Foreign 1 ''sql: no rows in result set'')
   \<and> snd (GetUserByID_impl
            (UserUsecase_repo \<lparr>UserUsecase_repo = user_repo_down 2 ''dial tcp: connection refused''\<rparr>)
            Background ''42'') = Some (Foreign 2 ''dial tcp: connection refused'')
   \<and> fst (GetUser \<lparr>UserUsecase_repo = user_repo_down 1 ''sql: no rows in result set''\<rparr>
            Background ''42'' world0)
       = (None, Some (errors_New ''usuario no encontrado''))
   \<and> fst (GetUser \<lparr>UserUsecase_repo = user_repo_down 2 ''dial tcp: connection refused''\<rparr>
            Background ''42'' world0)
       = (None, Some (errors_New ''usuario no encontrado''))"
proof -
  have userID: "''42'' \<noteq> ''''" by simp
  have no_rows: "snd (GetUserByID_impl
            (UserUsecase_repo \<lparr>UserUsecase_repo = user_repo_down 1 ''sql: no rows in result set''\<rparr>)
            Background ''42'') = Some (Foreign 1 ''sql: no rows in result set'')"
    by (simp add: user_repo_down_def)
  have refused: "snd (GetUserByID_impl
            (UserUsecase_repo \<lparr>UserUsecase_repo = user_repo_down 2 ''dial tcp: connection refused''\<rparr>)
            Background ''42'') = Some (Foreign 2 ''dial tcp: connection refused'')"
    by (simp add: user_repo_down_def)
  from userID no_rows refused
    GetUser_repo_failure [OF userID no_rows, of world0]
    GetUser_repo_failure [OF userID refused, of world0]
  show ?thesis by blast
qed

section \<open>Post use case: properties\<close>

text \<open>
  C7. \<open>CreatePost\<close> calls the repository's \<open>Create\<close> once, with the context and the
  pointer it was given. If that returns an error, \<open>CreatePost\<close> returns a nil post and
  that very error; if it returns none, \<open>CreatePost\<close> returns the pointer it was given
  and a nil error. In both cases the store is the one the repository left.
\<close>

theorem CreatePost_result:
  "(fst (Create_impl (PostUsecase_repo u) ctx p (heap w)) = Some err
      \<longrightarrow> fst (CreatePost u ctx p w) = (None, Some err))
   \<and> (fst (Create_impl (PostUsecase_repo u) ctx p (heap w)) = None
      \<longrightarrow> fst (CreatePost u ctx p w) = (Some p, None))
   \<and> heap (snd (CreatePost u ctx p w)) = snd (Create_impl (PostUsecase_repo u) ctx p (heap w))
   \<and> since w (snd (CreatePost u ctx p w)) = [EvRepoCreate ctx p (heap w p)]"
  by (cases "Create_impl (PostUsecase_repo u) ctx p (heap w)")
     (simp add: CreatePost_def PostRepository_Create_def since_def emit_def split: option.split)

theorem CreatePost_result_witness:
  "fst (Create_impl (PostUsecase_repo \<lparr>PostUsecase_repo = repo_down ''duplicate key''\<rparr>)
          (RequestCtx 1) 0 (heap world0)) = Some (Foreign 1 ''duplicate key'')
   \<and> fst (CreatePost \<lparr>PostUsecase_repo = repo_down ''duplicate key''\<rparr> (RequestCtx 1) 0 world0)
       = (None, Some (Foreign 1 ''duplicate key''))
   \<and> fst (Create_impl (PostUsecase_repo \<lparr>PostUsecase_repo = repo_ok\<rparr>) (RequestCtx 1) 0 (heap world0))
       = None
   \<and> fst (CreatePost \<lparr>PostUsecase_repo = repo_ok\<rparr> (RequestCtx 1) 0 world0) = (Some 0, None)
   \<and> ID (heap (snd (CreatePost \<lparr>PostUsecase_repo = repo_ok\<rparr> (RequestCtx 1) 0 world0)) 0) = ''p1''"
proof -
  have down: "fst (Create_impl (PostUsecase_repo \<lparr>PostUsecase_repo = repo_down ''duplicate key''\<rparr>)
          (RequestCtx 1) 0 (heap world0)) = Some (Foreign 1 ''duplicate key'')"
    by (simp add: repo_down_def)
  have ok: "fst (Create_impl (PostUsecase_repo \<lparr>PostUsecase_repo = repo_ok\<rparr>) (RequestCtx 1) 0
                  (heap world0)) = None"
    by (simp add: repo_ok_def)
  have stored: "ID (snd (Create_impl (PostUsecase_repo \<lparr>PostUsecase_repo = repo_ok\<rparr>) (RequestCtx 1) 0
                  (heap world0)) 0) = ''p1''"
    by (simp add: repo_ok_def)
  from down ok stored
    CreatePost_result [of "\<lparr>PostUsecase_repo = repo_down ''duplicate key''\<rparr>" "RequestCtx 1" 0 world0
      "Foreign 1 ''duplicate key''"]
    CreatePost_result [of "\<lparr>PostUsecase_repo = repo_ok\<rparr>" "RequestCtx 1" 0 world0]
  show ?thesis by simp
qed

section \<open>Post controller, Create: properties\<close>

text \<open>
  C1. A request whose form parses, whose title and content are not empty and which has
  no image part (\<open>FormFile\<close> answers \<open>http.ErrMissingFile\<close>) makes \<open>Create\<close> hand
  exactly one Post to the repository, and that Post has the request's title and content,
  an empty ImageURL, Likes and Dislikes 0, IsFlagged false, and CreatedAt equal to
  UpdatedAt.
\<close>

theorem Create_no_image_post:
  assumes "HasPrefix (Header_Get r ''Content-Type'') ''multipart/form-data''"
    and "ParseMultipartForm_impl r 10485760 = None"
    and "FormValue r ''title'' \<noteq> ''''" and "FormValue r ''content'' \<noteq> ''''"
    and "FormFile r ''image'' = Inl ErrMissingFile"
  shows "\<exists>post. created_posts (since w (snd (Create c r w))) = [post]
           \<and> Title post = FormValue r ''title'' \<and> Content post = FormValue r ''content''
           \<and> ImageURL post = '''' \<and> Likes post = 0 \<and> Dislikes post = 0
           \<and> IsFlagged post = False \<and> CreatedAt post = UpdatedAt post"
proof -
  let ?post = "new_Post (FormValue r ''title'') (FormValue r ''content'') '''' (wall w (ticks w))"
  have run: "Create c r w =
      Create_save c r (FormValue r ''title'') (FormValue r ''content'') ''''
        (emit (EvParseMultipartForm 10485760) w)"
    using assms by (simp add: Create_def ParseMultipartForm_def)
  have "created_posts (since w (snd (Create c r w))) = [?post]"
    by (simp add: run Create_observed)
  moreover have "Title ?post = FormValue r ''title'' \<and> Content ?post = FormValue r ''content''
      \<and> ImageURL ?post = '''' \<and> Likes ?post = 0 \<and> Dislikes ?post = 0
      \<and> IsFlagged ?post = False \<and> CreatedAt ?post = UpdatedAt ?post"
    by (simp add: new_Post_def)
  ultimately show ?thesis by blast
qed

theorem Create_no_image_post_witness:
  "HasPrefix (Header_Get (req_text ''Hello'' ''World'') ''Content-Type'') ''multipart/form-data''
   \<and> ParseMultipartForm_impl (req_text ''Hello'' ''World'') 10485760 = None
   \<and> FormValue (req_text ''Hello'' ''World'') ''title'' \<noteq> ''''
   \<and> FormValue (req_text ''Hello'' ''World'') ''content'' \<noteq> ''''
   \<and> FormFile (req_text ''Hello'' ''World'') ''image'' = Inl ErrMissingFile
   \<and> (\<exists>post. created_posts (since world0
                 (snd (Create (controller repo_ok cld_ok) (req_text ''Hello'' ''World'') world0))) = [post]
           \<and> Title post = FormValue (req_text ''Hello'' ''World'') ''title''
           \<and> Content post = FormValue (req_text ''Hello'' ''World'') ''content''
           \<and> ImageURL post = '''' \<and> Likes post = 0 \<and> Dislikes post = 0
           \<and> IsFlagged post = False \<and> CreatedAt post = UpdatedAt post)"
proof -
  have h1: "HasPrefix (Header_Get (req_text ''Hello'' ''World'') ''Content-Type'') ''multipart/form-data''"
    by (simp add: request_defs)
  have h2: "ParseMultipartForm_impl (req_text ''Hello'' ''World'') 10485760 = None"
    by (simp add: request_defs)
  have h3: "FormValue (req_text ''Hello'' ''World'') ''title'' \<noteq> ''''"
    by (simp add: request_defs)
  have h4: "FormValue (req_text ''Hello'' ''World'') ''content'' \<noteq> ''''"
    by (simp add: request_defs)
  have h5: "FormFile (req_text ''Hello'' ''World'') ''image'' = Inl ErrMissingFile"
    by (simp add: request_defs)
  from Create_no_image_post [OF h1 h2 h3 h4 h5, of world0 "controller repo_ok cld_ok"] h1 h2 h3 h4 h5
  show ?thesis by blast
qed

text \<open>
  C2. If the title or the content of the form is empty, \<open>Create\<close> responds with status
  400, the repository's \<open>Create\<close> is not called, and the store is left as it was.
  (With a wrong content type or a form that does not parse the response is a 400 as
  well, so the statement needs no other hypothesis.)
\<close>

theorem Create_empty_field:
  assumes "FormValue r ''title'' = '''' \<or> FormValue r ''content'' = ''''"
  shows "(\<exists>resp. fst (Create c r w) = Responded resp \<and> status resp = StatusBadRequest)
         \<and> created_posts (since w (snd (Create c r w))) = []
         \<and> heap (snd (Create c r w)) = heap w"
  using assms
  by (cases rule: Create_cases [of r c w]) (simp_all add: Create_observed)

theorem Create_empty_field_witness:
  "(FormValue (req_text '''' ''World'') ''title'' = ''''
      \<or> FormValue (req_text '''' ''World'') ''content'' = '''')
   \<and> fst (Create (controller repo_ok cld_ok) (req_text '''' ''World'') world0) =
       Responded (http_Error ''title y content son obligatorios'' StatusBadRequest)
   \<and> (\<exists>resp. fst (Create (controller repo_ok cld_ok) (req_text '''' ''World'') world0) = Responded resp
         \<and> status resp = StatusBadRequest)
   \<and> created_posts (since world0
        (snd (Create (controller repo_ok cld_ok) (req_text '''' ''World'') world0))) = []
   \<and> heap (snd (Create (controller repo_ok cld_ok) (req_text '''' ''World'') world0)) = heap world0"
proof -
  have empty: "FormValue (req_text '''' ''World'') ''title'' = ''''
      \<or> FormValue (req_text '''' ''World'') ''content'' = ''''"
    by (simp add: request_defs)
  have answer: "fst (Create (controller repo_ok cld_ok) (req_text '''' ''World'') world0) =
       Responded (http_Error ''title y content son obligatorios'' StatusBadRequest)"
    by (simp add: run_defs request_defs)
  from empty answer Create_empty_field [OF empty, of "controller repo_ok cld_ok" world0]
  show ?thesis by blast
qed

text \<open>
  C4. If the upload is reached and the image host returns an error, \<open>Create\<close> responds
  with status 500, the repository's \<open>Create\<close> is not called, and the store is left as
  it was.
\<close>

theorem Create_upload_failure:
  assumes "HasPrefix (Header_Get r ''Content-Type'') ''multipart/form-data''"
    and "ParseMultipartForm_impl r 10485760 = None"
    and "FormValue r ''title'' \<noteq> ''''" and "FormValue r ''content'' \<noteq> ''''"
    and "FormFile r ''image'' = Inr img"
    and "snd (Upload_impl (cld c) (Ctx r) img (uploadParams (wall w (ticks w)))) = Some err"
  shows "(\<exists>resp. fst (Create c r w) = Responded resp \<and> status resp = StatusInternalServerError)
         \<and> created_posts (since w (snd (Create c r w))) = []
         \<and> heap (snd (Create c r w)) = heap w"
  using assms
  by (cases rule: Create_cases [of r c w]) (simp_all add: Create_observed)

theorem Create_upload_failure_witness:
  "HasPrefix (Header_Get req_image ''Content-Type'') ''multipart/form-data''
   \<and> ParseMultipartForm_impl req_image 10485760 = None
   \<and> FormValue req_image ''title'' \<noteq> '''' \<and> FormValue req_image ''content'' \<noteq> ''''
   \<and> FormFile req_image ''image'' = Inr (FileHandle 3)
   \<and> snd (Upload_impl (cld (controller repo_ok (cld_fails ''Invalid api_key''))) (Ctx req_image)
            (FileHandle 3) (uploadParams (wall world0 (ticks world0))))
       = Some (Foreign 2 ''Invalid api_key'')
   \<and> (\<exists>resp. fst (Create (controller repo_ok (cld_fails ''Invalid api_key'')) req_image world0)
                = Responded resp \<and> status resp = StatusInternalServerError)
   \<and> created_posts (since world0
        (snd (Create (controller repo_ok (cld_fails ''Invalid api_key'')) req_image world0))) = []
   \<and> heap (snd (Create (controller repo_ok (cld_fails ''Invalid api_key'')) req_image world0))
       = heap world0"
proof -
  have h1: "HasPrefix (Header_Get req_image ''Content-Type'') ''multipart/form-data''"
    by (simp add: request_defs)
  have h2: "ParseMultipartForm_impl req_image 10485760 = None"
    by (simp add: request_defs)
  have h3: "FormValue req_image ''title'' \<noteq> ''''"
    by (simp add: request_defs)
  have h4: "FormValue req_image ''content'' \<noteq> ''''"
    by (simp add: request_defs)
  have h5: "FormFile req_image ''image'' = Inr (FileHandle 3)"
    by (simp add: request_defs)
  have h6: "snd (Upload_impl (cld (controller repo_ok (cld_fails ''Invalid api_key''))) (Ctx req_image)
            (FileHandle 3) (uploadParams (wall world0 (ticks world0))))
       = Some (Foreign 2 ''Invalid api_key'')"
    by (simp add: controller_def cld_fails_def)
  from Create_upload_failure [OF h1 h2 h3 h4 h5 h6] h1 h2 h3 h4 h5 h6
  show ?thesis by blast
qed

text \<open>
  C9, as the spec words it, has the form parsed under a maximum total size of 10 MiB.
  The number the handler passes is the \<open>maxMemory\<close> of \<open>ParseMultipartForm\<close>, which
  bounds what is kept in memory and not what the request may carry: a post whose image
  alone is 11 MiB parses under that limit (the image goes to a temporary file), is
  uploaded and is created with status 201.
\<close>

theorem request_larger_than_limit_is_accepted:
  "body_size big_body = 11534346
   \<and> 10 * 2 ^ 20 < body_size big_body
   \<and> ParseMultipartForm_impl (multipart_request (RequestCtx 6) big_body) (10 * 2 ^ 20) = None
   \<and> parse_limits (since world0
        (snd (Create (controller repo_ok cld_ok) (multipart_request (RequestCtx 6) big_body) world0)))
       = [10 * 2 ^ 20]
   \<and> fst (Create (controller repo_ok cld_ok) (multipart_request (RequestCtx 6) big_body) world0) =
       Responded (JSON StatusCreated
         (JPost ((new_Post ''Hello'' ''World'' ''https://img.example/post_1700000000''
                    1700000000000000001)\<lparr>ID := ''p1''\<rparr>)))"
  by (simp add: body_size_def big_body_def multipart_request_def run_defs collaborator_defs
      multipart_header_def HasPrefix_def Header_Get_def FormValue_def FormFile_def
      uploadParams_def post_id observe_simps Let_def)

text \<open>
  C9, amended. For a request whose content type starts with \<open>multipart/form-data\<close>,
  \<open>Create\<close> parses the form exactly once and passes the fixed value 10 * 2^20 (10 MiB)
  as the limit argument of \<open>ParseMultipartForm\<close>; and if parsing fails with an error,
  \<open>Create\<close> stops there with status 400 and the message \<open>Error parsing form: \<close>
  followed by the text of that error.
\<close>

theorem Create_parse_limit:
  assumes "HasPrefix (Header_Get r ''Content-Type'') ''multipart/form-data''"
  shows "parse_limits (since w (snd (Create c r w))) = [10 * 2 ^ 20]
         \<and> (\<forall>err. ParseMultipartForm_impl r (10 * 2 ^ 20) = Some err \<longrightarrow>
               Create c r w =
                 (Responded (http_Error (''Error parsing form: '' @ Error err) StatusBadRequest),
                  emit (EvParseMultipartForm (10 * 2 ^ 20)) w))"
  using assms
  by (cases rule: Create_cases [of r c w]) (simp_all add: Create_observed)

theorem Create_parse_limit_witness:
  "HasPrefix (Header_Get req_unparsable ''Content-Type'') ''multipart/form-data''
   \<and> ParseMultipartForm_impl req_unparsable (10 * 2 ^ 20) = Some (Foreign 5 ''unexpected EOF'')
   \<and> parse_limits (since world0 (snd (Create (controller repo_ok cld_ok) req_unparsable world0)))
       = [10485760]
   \<and> Create (controller repo_ok cld_ok) req_unparsable world0 =
       (Responded (http_Error ''Error parsing form: unexpected EOF'' StatusBadRequest),
        emit (EvParseMultipartForm 10485760) world0)"
proof -
  have h1: "HasPrefix (Header_Get req_unparsable ''Content-Type'') ''multipart/form-data''"
    by (simp add: request_defs)
  have h2: "ParseMultipartForm_impl req_unparsable (10 * 2 ^ 20) = Some (Foreign 5 ''unexpected EOF'')"
    by (simp add: request_defs)
  from Create_parse_limit [OF h1, of world0 "controller repo_ok cld_ok"] h1 h2
  show ?thesis by (simp add: since_emit observe_simps)
qed

text \<open>
  C10. Whatever error \<open>FormFile\<close> returns for the image part, \<open>Create\<close> drops it:
  nothing is uploaded, one Post with an empty ImageURL is handed to the repository, and
  the response is the one of the persistence step alone: 201 with the stored Post, or
  the 500 of a failed \<open>CreatePost\<close>. The error does not occur in the result.
\<close>

theorem Create_image_error_discarded:
  assumes "HasPrefix (Header_Get r ''Content-Type'') ''multipart/form-data''"
    and "ParseMultipartForm_impl r 10485760 = None"
    and "FormValue r ''title'' \<noteq> ''''" and "FormValue r ''content'' \<noteq> ''''"
    and "FormFile r ''image'' = Inl err"
  shows "uploads (since w (snd (Create c r w))) = []
       \<and> created_posts (since w (snd (Create c r w))) =
           [new_Post (FormValue r ''title'') (FormValue r ''content'') '''' (wall w (ticks w))]
       \<and> ImageURL (new_Post (FormValue r ''title'') (FormValue r ''content'') '''' (wall w (ticks w))) = ''''
       \<and> fst (Create c r w) =
           (case Create_impl (PostUsecase_repo (postUsecase c)) (Ctx r) (next_addr w)
                   ((heap w)(next_addr w :=
                      new_Post (FormValue r ''title'') (FormValue r ''content'') '''' (wall w (ticks w)))) of
              (Some e, h) \<Rightarrow> Responded (http_Error ''No se pudo crear el post'' StatusInternalServerError)
            | (None, h) \<Rightarrow> Responded (JSON StatusCreated (JPost (h (next_addr w)))))"
proof -
  have run: "Create c r w =
      Create_save c r (FormValue r ''title'') (FormValue r ''content'') ''''
        (emit (EvParseMultipartForm 10485760) w)"
    using assms by (simp add: Create_def ParseMultipartForm_def)
  have "uploads (since w (snd (Create c r w))) = []"
    by (simp add: run Create_observed)
  moreover have "created_posts (since w (snd (Create c r w))) =
           [new_Post (FormValue r ''title'') (FormValue r ''content'') '''' (wall w (ticks w))]"
    by (simp add: run Create_observed)
  moreover have "ImageURL (new_Post (FormValue r ''title'') (FormValue r ''content'') ''''
                    (wall w (ticks w))) = ''''"
    by (simp add: new_Post_def)
  moreover have "fst (Create c r w) =
           (case Create_impl (PostUsecase_repo (postUsecase c)) (Ctx r) (next_addr w)
                   ((heap w)(next_addr w :=
                      new_Post (FormValue r ''title'') (FormValue r ''content'') '''' (wall w (ticks w)))) of
              (Some e, h) \<Rightarrow> Responded (http_Error ''No se pudo crear el post'' StatusInternalServerError)
            | (None, h) \<Rightarrow> Responded (JSON StatusCreated (JPost (h (next_addr w)))))"
    by (simp add: run Create_save_outcome emit_fields split: prod.split option.split)
  ultimately show ?thesis by blast
qed

text \<open>An image part that cannot be opened: the post is created all the same, without image.\<close>

theorem Create_image_error_discarded_witness:
  "HasPrefix (Header_Get req_bad_image ''Content-Type'') ''multipart/form-data''
   \<and> ParseMultipartForm_impl req_bad_image 10485760 = None
   \<and> FormValue req_bad_image ''title'' \<noteq> '''' \<and> FormValue req_bad_image ''content'' \<noteq> ''''
   \<and> FormFile req_bad_image ''image'' = Inl (Foreign 4 ''open /tmp/multipart-1: too many open files'')
   \<and> uploads (since world0 (snd (Create (controller repo_ok cld_ok) req_bad_image world0))) = []
   \<and> created_posts (since world0 (snd (Create (controller repo_ok cld_ok) req_bad_image world0))) =
       [new_Post ''Hello'' ''World'' '''' 1700000000000000000]
   \<and> fst (Create (controller repo_ok cld_ok) req_bad_image world0) =
       Responded (JSON StatusCreated
         (JPost ((new_Post ''Hello'' ''World'' '''' 1700000000000000000)\<lparr>ID := ''p1''\<rparr>)))"
proof -
  have h1: "HasPrefix (Header_Get req_bad_image ''Content-Type'') ''multipart/form-data''"
    by (simp add: request_defs)
  have h2: "ParseMultipartForm_impl req_bad_image 10485760 = None"
    by (simp add: request_defs)
  have h3: "FormValue req_bad_image ''title'' \<noteq> ''''"
    by (simp add: request_defs)
  have h4: "FormValue req_bad_image ''content'' \<noteq> ''''"
    by (simp add: request_defs)
  have h5: "FormFile req_bad_image ''image'' = Inl (Foreign 4 ''open /tmp/multipart-1: too many open files'')"
    by (simp add: request_defs)
  have fields: "FormValue req_bad_image ''title'' = ''Hello''" "FormValue req_bad_image ''content'' = ''World''"
    by (simp_all add: request_defs)
  have clock: "wall world0 (ticks world0) = 1700000000000000000" "next_addr world0 = 0"
    by (simp_all add: world0_def)
  have stored: "Create_impl (PostUsecase_repo (postUsecase (controller repo_ok cld_ok)))
                  (Ctx req_bad_image) 0
                  ((heap world0)(0 := new_Post ''Hello'' ''World'' '''' 1700000000000000000)) =
                (None, ((heap world0)(0 := new_Post ''Hello'' ''World'' '''' 1700000000000000000))
                          (0 := (new_Post ''Hello'' ''World'' '''' 1700000000000000000)\<lparr>ID := ''p1''\<rparr>))"
    by (simp add: controller_def repo_ok_def)
  from Create_image_error_discarded [OF h1 h2 h3 h4 h5, of world0 "controller repo_ok cld_ok"]
    h1 h2 h3 h4 h5
  show ?thesis by (simp add: fields clock stored)
qed

section \<open>Post controller: what a failing collaborator lets the caller see\<close>




section \<open>Post controller: the context that reaches the collaborators\<close>

text \<open>
  C8 says that every persistence call gets the context of the incoming request.
  \<open>Create\<close> does that (lemma \<open>Create_contexts\<close>); \<open>GetAll\<close> does not: it builds
  \<open>context.Background()\<close> and never reads the request. For a GET whose own context is
  \<open>RequestCtx 5\<close>, the one call to the repository carries \<open>Background\<close>.
\<close>

theorem GetAll_passes_background_context:
  "Ctx req_get = RequestCtx 5
   \<and> since world0 (snd (GetAll (controller repo_ok cld_ok) req_get world0)) = [EvRepoGetAll Background]
   \<and> call_contexts (since world0 (snd (GetAll (controller repo_ok cld_ok) req_get world0)))
       \<noteq> [Ctx req_get]"
  by (simp add: GetAll_def GetAllPosts_def PostRepository_GetAll_def since_def emit_def
      controller_def repo_ok_def world0_def req_get_def observe_simps)

end
